theory Spec2Isabelle
  imports Main "HOL-Library.AList" "HOL-Library.Char_ord" "HOL-Library.List_Lexorder"
begin

section \<open>Python objects seen by the hook\<close>

text \<open>
  The hook of \<^verbatim>\<open>syft/frameworks/torch/hook.py\<close> works by reflection: it lists the
  attributes of a class or a module with \<^verbatim>\<open>dir\<close>, reads them with \<^verbatim>\<open>getattr\<close>,
  classifies them and replaces them with \<^verbatim>\<open>setattr\<close>. A class (or a module namespace)
  is modelled as an association list from attribute names to members; it holds every
  attribute visible on the class, inherited ones included.
\<close>

datatype py_error = AttributeError | KeyError | TypeError | RecursionError | ExternalError nat

text \<open>
  What the hook can tell about a member:
  \<^item> \<open>MethodDescriptor i q\<close>: an object for which \<^verbatim>\<open>inspect.ismethoddescriptor\<close> holds
    (it has \<^verbatim>\<open>__get__\<close> and no \<^verbatim>\<open>__set__\<close> and is no function, method or class);
    \<open>i\<close> names its implementation, \<open>q\<close> is its \<^verbatim>\<open>__qualname__\<close> when it has one;
  \<^item> \<open>Function i m n q\<close>: an instance of \<^verbatim>\<open>types.FunctionType\<close> with its
    \<^verbatim>\<open>__module__\<close>, \<^verbatim>\<open>__name__\<close> and \<^verbatim>\<open>__qualname__\<close> (a function always has them);
  \<^item> \<open>BuiltinFunction i m n q\<close>: an instance of \<^verbatim>\<open>types.BuiltinFunctionType\<close>;
  \<^item> \<open>Other i q\<close>: anything else (a property, a class, plain data);
  \<^item> \<open>Unreadable\<close>: a name that \<^verbatim>\<open>dir\<close> lists and whose \<^verbatim>\<open>getattr\<close> raises
    \<^verbatim>\<open>AttributeError\<close>;
  \<^item> the closures and objects the hook itself creates: \<open>HookedMethod attr\<close>,
    \<open>HookedSyftMethod attr\<close>, \<open>HookedPointerMethod attr\<close> and \<open>HookedFunc f\<close> are the
    \<^verbatim>\<open>overloaded_attr\<close> of \<^verbatim>\<open>get_hooked_method\<close>, \<^verbatim>\<open>get_hooked_syft_method\<close>,
    \<^verbatim>\<open>get_hooked_pointer_method\<close> and \<^verbatim>\<open>get_hooked_func\<close>; \<open>NewInit\<close> is
    \<^verbatim>\<open>new___init__\<close>; \<open>SyftProperty n\<close> is the property object \<open>n\<close> of
    \<^verbatim>\<open>_hook_properties\<close>.
\<close>

datatype member =
    MethodDescriptor nat "string option"
  | Function nat string string string
  | BuiltinFunction nat string string string
  | Other nat "string option"
  | Unreadable
  | HookedMethod string
  | HookedSyftMethod string
  | HookedPointerMethod string
  | HookedFunc member
  | NewInit
  | SyftProperty string

type_synonym class_tbl = "(string \<times> member) list"

definition dir :: "class_tbl \<Rightarrow> string list" where
  "dir T = sort (remdups (map fst T))"

definition getattr :: "class_tbl \<Rightarrow> string \<Rightarrow> py_error + member" where
  "getattr T attr =
     (case map_of T attr of
        None \<Rightarrow> Inl AttributeError
      | Some Unreadable \<Rightarrow> Inl AttributeError
      | Some m \<Rightarrow> Inr m)"

definition hasattr :: "class_tbl \<Rightarrow> string \<Rightarrow> bool" where
  "hasattr T attr = (case getattr T attr of Inl e \<Rightarrow> False | Inr m \<Rightarrow> True)"

definition setattr :: "class_tbl \<Rightarrow> string \<Rightarrow> member \<Rightarrow> class_tbl" where
  "setattr T attr m = AList.update attr m T"

text \<open>The name \<^verbatim>\<open>f"native_{attr}"\<close>.\<close>

definition native_name :: "string \<Rightarrow> string" where
  "native_name attr = ''native_'' @ attr"

text \<open>\<^verbatim>\<open>p in s\<close> on strings: \<open>p\<close> occurs in \<open>s\<close> as a contiguous substring.\<close>

fun str_contains :: "string \<Rightarrow> string \<Rightarrow> bool" where
  "str_contains p [] = (p = [])"
| "str_contains p (c # cs) = (take (length p) (c # cs) = p \<or> str_contains p cs)"

text \<open>
  \<^verbatim>\<open>re.match("native*", attr) is not None\<close>. The pattern is the five letters
  \<^verbatim>\<open>nativ\<close> followed by any number of \<^verbatim>\<open>e\<close>, and \<^verbatim>\<open>re.match\<close> anchors it at the
  start of the string only: it matches exactly the names that begin with \<^verbatim>\<open>nativ\<close>.
\<close>

definition re_match_native :: "string \<Rightarrow> bool" where
  "re_match_native attr = (take 5 attr = ''nativ'')"

fun ismethoddescriptor :: "member \<Rightarrow> bool" where
  "ismethoddescriptor (MethodDescriptor i q) = True"
| "ismethoddescriptor m = False"

text \<open>\<^verbatim>\<open>isinstance(lit, types.FunctionType)\<close>: Python functions, the hook's closures included.\<close>

fun is_FunctionType :: "member \<Rightarrow> bool" where
  "is_FunctionType (Function i m n q) = True"
| "is_FunctionType (HookedMethod a) = True"
| "is_FunctionType (HookedSyftMethod a) = True"
| "is_FunctionType (HookedPointerMethod a) = True"
| "is_FunctionType (HookedFunc f) = True"
| "is_FunctionType NewInit = True"
| "is_FunctionType m = False"

fun is_BuiltinFunctionType :: "member \<Rightarrow> bool" where
  "is_BuiltinFunctionType (BuiltinFunction i m n q) = True"
| "is_BuiltinFunctionType m = False"

text \<open>
  \<^verbatim>\<open>lit.__qualname__\<close>. The closures keep the qualified name of their definition
  (\<^verbatim>\<open>wraps(attr)\<close> on a string copies no name); \<^verbatim>\<open>get_hooked_func\<close> wraps a function,
  so \<^verbatim>\<open>wraps\<close> copies the function's names onto the closure, each one that the
  function has.
\<close>

fun qualname :: "member \<Rightarrow> py_error + string" where
  "qualname (MethodDescriptor i q) = (case q of None \<Rightarrow> Inl AttributeError | Some s \<Rightarrow> Inr s)"
| "qualname (Function i m n q) = Inr q"
| "qualname (BuiltinFunction i m n q) = Inr q"
| "qualname (Other i q) = (case q of None \<Rightarrow> Inl AttributeError | Some s \<Rightarrow> Inr s)"
| "qualname Unreadable = Inl AttributeError"
| "qualname (HookedMethod a) = Inr ''TorchHook.get_hooked_method.<locals>.overloaded_attr''"
| "qualname (HookedSyftMethod a) = Inr ''TorchHook.get_hooked_syft_method.<locals>.overloaded_attr''"
| "qualname (HookedPointerMethod a) =
     Inr ''TorchHook.get_hooked_pointer_method.<locals>.overloaded_attr''"
| "qualname (HookedFunc f) =
     (case qualname f of
        Inr q \<Rightarrow> Inr q
      | Inl e \<Rightarrow> Inr ''TorchHook.get_hooked_func.<locals>.overloaded_attr'')"
| "qualname NewInit = Inr ''TorchHook._add_registration_to___init__.<locals>.new___init__''"
| "qualname (SyftProperty n) = Inl AttributeError"

section \<open>The capability registry\<close>

text \<open>
  \<^verbatim>\<open>_which_methods_should_we_auto_overload\<close>. \<open>exclude\<close> is \<^verbatim>\<open>syft.torch.exclude\<close>
  and \<open>dir_object\<close> is \<^verbatim>\<open>dir(object)\<close>; both are given from outside (the first comes
  from \<^verbatim>\<open>TorchAttributes\<close>, the second from the interpreter). The loop body is
  \<open>should_overload\<close>: \<open>Inr True\<close> when the name is appended to \<^verbatim>\<open>to_overload\<close>,
  \<open>Inr False\<close> when it is skipped, \<open>Inl e\<close> when the body raises \<open>e\<close>.
\<close>

definition is_service_func :: "member \<Rightarrow> py_error + bool" where
  "is_service_func lit =
     (case qualname lit of
        Inr q \<Rightarrow> Inr (str_contains ''HookService'' q)
      | Inl AttributeError \<Rightarrow> Inr False
      | Inl e \<Rightarrow> Inl e)"

definition should_overload ::
  "string list \<Rightarrow> string list \<Rightarrow> class_tbl \<Rightarrow> string \<Rightarrow> py_error + bool" where
  "should_overload exclude dir_object tensor_type attr =
     (if attr \<in> set exclude then Inr False
      else if \<not> hasattr tensor_type attr then Inr False
      else
        (case getattr tensor_type attr of
           Inl e \<Rightarrow> Inl e
         | Inr lit \<Rightarrow>
             (let is_base = (attr \<in> set dir_object);
                  is_desc = ismethoddescriptor lit;
                  is_func = is_FunctionType lit
              in case is_service_func lit of
                   Inl e \<Rightarrow> Inl e
                 | Inr is_service \<Rightarrow>
                     (let is_overloaded = re_match_native attr
                      in Inr ((is_desc \<or> (is_func \<and> \<not> is_service))
                              \<and> \<not> is_base \<and> \<not> is_overloaded)))))"

fun which_methods_loop ::
  "string list \<Rightarrow> string list \<Rightarrow> class_tbl \<Rightarrow> string list \<Rightarrow> string list
     \<Rightarrow> py_error + string list" where
  "which_methods_loop exclude dir_object tensor_type [] to_overload = Inr to_overload"
| "which_methods_loop exclude dir_object tensor_type (attr # rest) to_overload =
     (case should_overload exclude dir_object tensor_type attr of
        Inl e \<Rightarrow> Inl e
      | Inr True \<Rightarrow>
          which_methods_loop exclude dir_object tensor_type rest (to_overload @ [attr])
      | Inr False \<Rightarrow> which_methods_loop exclude dir_object tensor_type rest to_overload)"

definition which_methods_should_we_auto_overload ::
  "string list \<Rightarrow> string list \<Rightarrow> class_tbl \<Rightarrow> py_error + string list" where
  "which_methods_should_we_auto_overload exclude dir_object tensor_type =
     which_methods_loop exclude dir_object tensor_type (dir tensor_type) []"

section \<open>Installing the dispatchers\<close>

text \<open>
  The installation loops mutate a class in place and may raise in the middle; each returns
  the exception raised, if any, with the class as it is at that moment.
\<close>

text \<open>\<^verbatim>\<open>_add_registration_to___init__\<close>.\<close>

definition add_registration_to_init :: "class_tbl \<Rightarrow> py_error option \<times> class_tbl" where
  "add_registration_to_init tensor_type =
     (if ''native___init__'' \<notin> set (dir tensor_type) then
        (case getattr tensor_type ''__init__'' of
           Inl e \<Rightarrow> (Some e, tensor_type)
         | Inr old_init \<Rightarrow>
             (None, setattr (setattr tensor_type ''native___init__'' old_init) ''__init__'' NewInit))
      else (None, setattr tensor_type ''__init__'' NewInit))"

text \<open>\<^verbatim>\<open>_hook_properties\<close>.\<close>

definition hook_properties :: "class_tbl \<Rightarrow> class_tbl" where
  "hook_properties tensor_type =
     (let t1 = setattr tensor_type ''location'' (SyftProperty ''location'');
          t2 = setattr t1 ''id_at_location'' (SyftProperty ''id_at_location'');
          t3 = setattr t2 ''id'' (SyftProperty ''id'')
      in setattr t3 ''is_wrapper'' (SyftProperty ''is_wrapper''))"

text \<open>\<^verbatim>\<open>_add_methods_from__torch_tensor\<close>, with its local list \<^verbatim>\<open>exclude\<close>.\<close>

definition torch_tensor_exclude :: "string list" where
  "torch_tensor_exclude =
     [''__class__'', ''__delattr__'', ''__dir__'', ''__doc__'', ''__dict__'', ''__format__'',
      ''__getattribute__'', ''__hash__'', ''__init__'', ''__init_subclass__'', ''__weakref__'',
      ''__ne__'', ''__new__'', ''__reduce__'', ''__reduce_ex__'', ''__setattr__'',
      ''__sizeof__'', ''__subclasshook__'', ''_get_type'', ''__eq__'', ''__gt__'', ''__ge__'',
      ''__lt__'', ''__le__'']"

fun add_methods_loop ::
  "class_tbl \<Rightarrow> string list \<Rightarrow> class_tbl \<Rightarrow> py_error option \<times> class_tbl" where
  "add_methods_loop TorchTensor [] tensor_type = (None, tensor_type)"
| "add_methods_loop TorchTensor (attr # rest) tensor_type =
     (if attr \<notin> set torch_tensor_exclude then
        (let t1 = (if hasattr tensor_type attr then
                     (case getattr tensor_type attr of
                        Inr m \<Rightarrow> setattr tensor_type (native_name attr) m
                      | Inl e \<Rightarrow> tensor_type)
                   else tensor_type)
         in case getattr TorchTensor attr of
              Inl e \<Rightarrow> (Some e, t1)
            | Inr m \<Rightarrow> add_methods_loop TorchTensor rest (setattr t1 attr m))
      else add_methods_loop TorchTensor rest tensor_type)"

definition add_methods_from_torch_tensor ::
  "class_tbl \<Rightarrow> class_tbl \<Rightarrow> class_tbl \<Rightarrow> py_error option \<times> class_tbl" where
  "add_methods_from_torch_tensor TorchTensor tensor_type syft_type =
     add_methods_loop TorchTensor (dir syft_type) tensor_type"

text \<open>\<^verbatim>\<open>_hook_native_methods\<close>, over the list \<^verbatim>\<open>self.to_auto_overload[tensor_type]\<close>.\<close>

fun hook_native_methods :: "string list \<Rightarrow> class_tbl \<Rightarrow> py_error option \<times> class_tbl" where
  "hook_native_methods [] tensor_type = (None, tensor_type)"
| "hook_native_methods (attr # rest) tensor_type =
     (if native_name attr \<notin> set (dir tensor_type) then
        (case getattr tensor_type attr of
           Inl e \<Rightarrow> (Some e, tensor_type)
         | Inr native_method \<Rightarrow>
             hook_native_methods rest
               (setattr (setattr tensor_type (native_name attr) native_method)
                  attr (HookedMethod attr)))
      else hook_native_methods rest tensor_type)"

text \<open>\<^verbatim>\<open>_hook_syft_tensor_methods\<close>: it cannot raise.\<close>

fun hook_syft_tensor_methods :: "string list \<Rightarrow> class_tbl \<Rightarrow> class_tbl" where
  "hook_syft_tensor_methods [] syft_type = syft_type"
| "hook_syft_tensor_methods (attr # rest) syft_type =
     (if attr \<notin> set (dir syft_type) then
        hook_syft_tensor_methods rest (setattr syft_type attr (HookedSyftMethod attr))
      else hook_syft_tensor_methods rest syft_type)"

text \<open>\<^verbatim>\<open>_hook_pointer_tensor_methods\<close>: it cannot raise.\<close>

fun hook_pointer_tensor_methods :: "string list \<Rightarrow> class_tbl \<Rightarrow> class_tbl" where
  "hook_pointer_tensor_methods [] PointerTensor = PointerTensor"
| "hook_pointer_tensor_methods (attr # rest) PointerTensor =
     (if attr \<notin> set (dir PointerTensor) then
        hook_pointer_tensor_methods rest (setattr PointerTensor attr (HookedPointerMethod attr))
      else hook_pointer_tensor_methods rest PointerTensor)"

text \<open>
  \<^verbatim>\<open>_hook_torch_module\<close> on the one module \<^verbatim>\<open>torch.nn.functional\<close>. The names
  \<^verbatim>\<open>dir(torch_module)\<close> are listed once, before the loop; the test
  \<^verbatim>\<open>f"native_{func}" in dir(torch_module)\<close> reads the module as it is by then.
\<close>

fun hook_torch_module_loop ::
  "string list \<Rightarrow> string list \<Rightarrow> class_tbl \<Rightarrow> py_error option \<times> class_tbl" where
  "hook_torch_module_loop exclude [] torch_module = (None, torch_module)"
| "hook_torch_module_loop exclude (func # rest) torch_module =
     (if func \<in> set exclude then hook_torch_module_loop exclude rest torch_module
      else if str_contains ''native_'' func \<or> native_name func \<in> set (dir torch_module)
      then hook_torch_module_loop exclude rest torch_module
      else
        (case getattr torch_module func of
           Inl e \<Rightarrow> (Some e, torch_module)
         | Inr native_func \<Rightarrow>
             (if is_FunctionType native_func \<or> is_BuiltinFunctionType native_func then
                hook_torch_module_loop exclude rest
                  (setattr (setattr torch_module (native_name func) native_func)
                     func (HookedFunc native_func))
              else hook_torch_module_loop exclude rest torch_module)))"

definition hook_torch_module :: "string list \<Rightarrow> class_tbl \<Rightarrow> py_error option \<times> class_tbl" where
  "hook_torch_module exclude torch_module =
     hook_torch_module_loop exclude (dir torch_module) torch_module"

section \<open>\<^verbatim>\<open>TorchHook.__init__\<close>\<close>

text \<open>
  The process-wide state the constructor reads and writes: the marker
  \<^verbatim>\<open>torch.torch_hooked\<close>, the classes \<^verbatim>\<open>torch.Tensor\<close>, \<^verbatim>\<open>PointerTensor\<close>,
  \<^verbatim>\<open>LoggingTensor\<close> and \<^verbatim>\<open>TorchTensor\<close>, the module \<^verbatim>\<open>torch.nn.functional\<close>, the
  globals \<^verbatim>\<open>syft.local_worker\<close> (\<open>None\<close> while the attribute is not set) and
  \<^verbatim>\<open>syft.torch\<close> (its \<^verbatim>\<open>exclude\<close> list, once set), the worker objects by address,
  and the warnings logged so far. Workers are objects with identity, so the hook and
  \<^verbatim>\<open>syft\<close> hold their addresses.
\<close>

record worker =
  worker_id :: string
  is_client_worker :: bool
  worker_hook :: "nat option"

record syft_state =
  torch_hooked :: bool
  Tensor_cls :: class_tbl
  nn_functional :: class_tbl
  PointerTensor_cls :: class_tbl
  LoggingTensor_cls :: class_tbl
  TorchTensor_cls :: class_tbl
  syft_local_worker :: "nat option option"
  syft_torch_exclude :: "string list option"
  workers :: "nat \<Rightarrow> worker option"
  next_worker :: nat
  log_warnings :: "string list"

text \<open>
  The \<^verbatim>\<open>TorchHook\<close> instance: \<open>local_worker\<close> is \<open>None\<close> for Python's \<^verbatim>\<open>None\<close>;
  \<open>to_auto_overload\<close> is the entry of the dictionary for \<^verbatim>\<open>torch.Tensor\<close>, its only
  key (\<open>None\<close> while there is none).
\<close>

record hook =
  local_worker :: "nat option"
  to_auto_overload :: "string list option"

text \<open>\<^verbatim>\<open>workers.VirtualWorker(hook=self, is_client_worker=is_client, id="me")\<close>: a new object.\<close>

definition VirtualWorker :: "nat \<Rightarrow> bool \<Rightarrow> syft_state \<Rightarrow> nat \<times> syft_state" where
  "VirtualWorker self is_client s =
     (next_worker s,
      s\<lparr>workers := (workers s)(next_worker s \<mapsto>
            \<lparr>worker_id = ''me'', is_client_worker = is_client, worker_hook = Some self\<rparr>),
        next_worker := Suc (next_worker s)\<rparr>)"

text \<open>\<^verbatim>\<open>self.local_worker.hook = self\<close>.\<close>

definition set_worker_hook :: "nat \<Rightarrow> nat \<Rightarrow> syft_state \<Rightarrow> syft_state" where
  "set_worker_hook w self s =
     (case workers s w of
        None \<Rightarrow> s
      | Some obj \<Rightarrow> s\<lparr>workers := (workers s)(w \<mapsto> obj\<lparr>worker_hook := Some self\<rparr>)\<rparr>)"

text \<open>
  \<^verbatim>\<open>_hook_native_tensor(tensor_type, syft_type)\<close>: the exception raised, if any,
  \<^verbatim>\<open>self.to_auto_overload[tensor_type]\<close> if it got set, and the class. \<open>TorchTensor\<close> is
  the global class that \<^verbatim>\<open>_add_methods_from__torch_tensor\<close> reads.
\<close>

definition hook_native_tensor ::
  "string list \<Rightarrow> string list \<Rightarrow> class_tbl \<Rightarrow> class_tbl \<Rightarrow> class_tbl
     \<Rightarrow> py_error option \<times> string list option \<times> class_tbl" where
  "hook_native_tensor exclude dir_object TorchTensor tensor_type syft_type =
     (case add_registration_to_init tensor_type of
        (Some e, t1) \<Rightarrow> (Some e, None, t1)
      | (None, t1) \<Rightarrow>
          (let t2 = hook_properties t1
           in case which_methods_should_we_auto_overload exclude dir_object t2 of
                Inl e \<Rightarrow> (Some e, None, t2)
              | Inr ovl \<Rightarrow>
                  (case add_methods_from_torch_tensor TorchTensor t2 syft_type of
                     (Some e, t3) \<Rightarrow> (Some e, Some ovl, t3)
                   | (None, t3) \<Rightarrow>
                       (case hook_native_methods ovl t3 of
                          (err, t4) \<Rightarrow> (err, Some ovl, t4)))))"

definition already_hooked_warning :: string where
  "already_hooked_warning = ''Torch was already hooked... skipping hooking process''"

text \<open>
  \<^verbatim>\<open>TorchHook.__init__(self, torch, local_worker, is_client, verbose)\<close>. \<open>attrs_exclude\<close>
  is the \<^verbatim>\<open>exclude\<close> list of \<^verbatim>\<open>TorchAttributes(torch, self)\<close>, \<open>self\<close> the address of
  the new hook. The result is the exception raised, if any, the hook object and the state,
  both as they are when the constructor returns or raises. The fields \<^verbatim>\<open>self.torch\<close>
  and \<^verbatim>\<open>self.args_hook_for_overloaded_attr\<close> are never read here and are left out.
  The later loops read \<^verbatim>\<open>self.to_auto_overload[tensor_type]\<close>, which raises
  \<^verbatim>\<open>KeyError\<close> if the entry is missing.
\<close>

definition TorchHook_init ::
  "string list \<Rightarrow> string list \<Rightarrow> nat \<Rightarrow> nat option \<Rightarrow> bool \<Rightarrow> syft_state
     \<Rightarrow> py_error option \<times> hook \<times> syft_state" where
  "TorchHook_init attrs_exclude dir_object self local_worker_arg is_client s =
     (let h0 = \<lparr>local_worker = local_worker_arg, to_auto_overload = None\<rparr>
      in if torch_hooked s then
           (let s1 = s\<lparr>log_warnings := log_warnings s @ [already_hooked_warning]\<rparr>
            in case syft_local_worker s of
                 None \<Rightarrow> (Some AttributeError, h0, s1)
               | Some w \<Rightarrow> (None, h0\<lparr>local_worker := w\<rparr>, s1))
         else
           (let s1 = s\<lparr>torch_hooked := True\<rparr>;
                s2 = s1\<lparr>syft_torch_exclude := Some attrs_exclude\<rparr>;
                (w, s3) = (case local_worker_arg of
                             None \<Rightarrow> VirtualWorker self is_client s2
                           | Some r \<Rightarrow> (r, set_worker_hook r self s2));
                h1 = h0\<lparr>local_worker := Some w\<rparr>
            in case hook_native_tensor attrs_exclude dir_object (TorchTensor_cls s3)
                      (Tensor_cls s3) (TorchTensor_cls s3) of
                 (Some e, ovl, t) \<Rightarrow> (Some e, h1\<lparr>to_auto_overload := ovl\<rparr>, s3\<lparr>Tensor_cls := t\<rparr>)
               | (None, None, t) \<Rightarrow> (Some KeyError, h1, s3\<lparr>Tensor_cls := t\<rparr>)
               | (None, Some ovl, t) \<Rightarrow>
                   (let h2 = h1\<lparr>to_auto_overload := Some ovl\<rparr>;
                        s4 = s3\<lparr>Tensor_cls := t\<rparr>;
                        s5 = s4\<lparr>PointerTensor_cls :=
                                  hook_pointer_tensor_methods ovl (PointerTensor_cls s4)\<rparr>;
                        s6 = s5\<lparr>LoggingTensor_cls :=
                                  hook_syft_tensor_methods ovl (LoggingTensor_cls s5)\<rparr>
                    in case hook_torch_module attrs_exclude (nn_functional s6) of
                         (Some e, m) \<Rightarrow> (Some e, h2, s6\<lparr>nn_functional := m\<rparr>)
                       | (None, m) \<Rightarrow>
                           (None, h2,
                            s6\<lparr>nn_functional := m,
                               syft_local_worker := Some (local_worker h2)\<rparr>))))"

section \<open>Values, commands and the outside world\<close>

text \<open>
  The values a dispatcher handles: \<open>Native d\<close> is a bare \<^verbatim>\<open>torch.Tensor\<close> (no
  \<^verbatim>\<open>child\<close> attribute) holding the data \<open>d\<close>; \<open>Wrapper c\<close> is a \<^verbatim>\<open>torch.Tensor\<close>
  whose \<^verbatim>\<open>child\<close> is \<open>c\<close>; \<open>Logging c\<close> is a \<^verbatim>\<open>LoggingTensor\<close> with child \<open>c\<close>;
  \<open>Pointer owner location id_at_location\<close> is a \<^verbatim>\<open>PointerTensor\<close>, \<open>owner\<close> being the
  address of the local worker that routes for it.
\<close>

datatype val =
    VNone
  | VInt int
  | VTuple "val list"
  | Native nat
  | Wrapper val
  | Logging val
  | Pointer nat string nat

type_synonym kwargs = "(string \<times> val) list"

text \<open>The command: the tuple \<^verbatim>\<open>(name, receiver, args)\<close>.\<close>

type_synonym command = "string \<times> val \<times> val list"

text \<open>
  The numeric library, the workers and \<^verbatim>\<open>TorchTensor.handle_func_command\<close> are outside the
  hook. Each is a function of an opaque world \<open>'w\<close>; every call to one of them is recorded
  in a trace, in order.
\<close>

datatype event =
    NativeCall nat val "val list" kwargs
  | SendCommand nat string command
  | HandleFuncCommand command

record 'w externals =
  run_native :: "nat \<Rightarrow> val \<Rightarrow> val list \<Rightarrow> kwargs \<Rightarrow> 'w \<Rightarrow> (py_error + val) \<times> 'w"
  send_command :: "nat \<Rightarrow> string \<Rightarrow> command \<Rightarrow> 'w \<Rightarrow> (py_error + val) \<times> 'w"
  handle_func_command :: "command \<Rightarrow> 'w \<Rightarrow> (py_error + val) \<times> 'w"

type_synonym 'w run = "'w \<times> event list \<Rightarrow> (py_error + val) \<times> ('w \<times> event list)"

definition call_native :: "'w externals \<Rightarrow> nat \<Rightarrow> val \<Rightarrow> val list \<Rightarrow> kwargs \<Rightarrow> 'w run" where
  "call_native X i self args kwargs st =
     (case run_native X i self args kwargs (fst st) of
        (r, w') \<Rightarrow> (r, (w', snd st @ [NativeCall i self args kwargs])))"

definition call_send_command :: "'w externals \<Rightarrow> nat \<Rightarrow> string \<Rightarrow> command \<Rightarrow> 'w run" where
  "call_send_command X owner location command st =
     (case send_command X owner location command (fst st) of
        (r, w') \<Rightarrow> (r, (w', snd st @ [SendCommand owner location command])))"

definition call_handle_func_command :: "'w externals \<Rightarrow> command \<Rightarrow> 'w run" where
  "call_handle_func_command X command st =
     (case handle_func_command X command (fst st) of
        (r, w') \<Rightarrow> (r, (w', snd st @ [HandleFuncCommand command])))"

text \<open>\<^verbatim>\<open>self.child\<close>, and with it \<^verbatim>\<open>hasattr(self, "child")\<close>.\<close>

fun child :: "val \<Rightarrow> val option" where
  "child (Wrapper c) = Some c"
| "child (Logging c) = Some c"
| "child v = None"

text \<open>\<^verbatim>\<open>type(self)\<close>.\<close>

datatype py_type = TorchTensorType | LoggingTensorType | PointerTensorType | OtherType

fun type_of :: "val \<Rightarrow> py_type" where
  "type_of (Native d) = TorchTensorType"
| "type_of (Wrapper c) = TorchTensorType"
| "type_of (Logging c) = LoggingTensorType"
| "type_of (Pointer w l i) = PointerTensorType"
| "type_of v = OtherType"

subsection \<open>The argument and response hooks\<close>

text \<open>
  The module \<^verbatim>\<open>syft.frameworks.torch.hook_args\<close>, with \<^verbatim>\<open>hook_method_args\<close> and
  \<^verbatim>\<open>hook_response\<close>, is not among the sources; the four definitions below stand for it.
\<close>

text \<open>
  Modelled from the spec: the unwrapping of one value inside the missing
  \<^verbatim>\<open>hook_method_args\<close>. The spec has every wrapper found in the arguments replaced by its
  immediate inner representation, exactly one level; a pointer has no inner representation,
  and a native value is left as it is.
\<close>

fun unwrap_one :: "val \<Rightarrow> val" where
  "unwrap_one (Wrapper c) = c"
| "unwrap_one (Logging c) = c"
| "unwrap_one (VTuple vs) = VTuple (map unwrap_one vs)"
| "unwrap_one v = v"

text \<open>
  Modelled from the spec: the missing \<^verbatim>\<open>hook_method_args(attr, self, args)\<close>. The spec
  has the receiver replaced by its immediate inner representation and the arguments
  unwrapped; it returns the new receiver and the new arguments.
\<close>

definition hook_method_args ::
  "string \<Rightarrow> val \<Rightarrow> val list \<Rightarrow> py_error + (val \<times> val list)" where
  "hook_method_args attr self args =
     (case child self of
        None \<Rightarrow> Inl AttributeError
      | Some new_self \<Rightarrow> Inr (new_self, map unwrap_one args))"

text \<open>
  Modelled from the spec: the wrapping of one raw value inside the missing
  \<^verbatim>\<open>hook_response\<close>, into the outward type \<^verbatim>\<open>wrap_type\<close>. Only the two types that wrap
  a child can do it.
\<close>

fun wrap :: "py_type \<Rightarrow> val \<Rightarrow> py_error + val" where
  "wrap TorchTensorType v = Inr (Wrapper v)"
| "wrap LoggingTensorType v = Inr (Logging v)"
| "wrap t v = Inl TypeError"

fun wrap_all :: "py_type \<Rightarrow> val list \<Rightarrow> py_error + val list" where
  "wrap_all t [] = Inr []"
| "wrap_all t (v # vs) =
     (case wrap t v of
        Inl e \<Rightarrow> Inl e
      | Inr v' \<Rightarrow> (case wrap_all t vs of Inl e \<Rightarrow> Inl e | Inr vs' \<Rightarrow> Inr (v' # vs')))"

text \<open>
  Modelled from the spec: the missing \<^verbatim>\<open>hook_response(attr, response, wrap_type)\<close>. The
  spec has the raw result wrapped back into the outward type of the original receiver, for a
  single value, a tuple of values, or no value.
\<close>

fun hook_response :: "string \<Rightarrow> val \<Rightarrow> py_type \<Rightarrow> py_error + val" where
  "hook_response attr VNone wrap_type = Inr VNone"
| "hook_response attr (VTuple vs) wrap_type =
     (case wrap_all wrap_type vs of Inl e \<Rightarrow> Inl e | Inr vs' \<Rightarrow> Inr (VTuple vs'))"
| "hook_response attr v wrap_type = wrap wrap_type v"

section \<open>The dispatchers\<close>

text \<open>
  Each \<^verbatim>\<open>overloaded_attr\<close> is a function of the receiver, the positional arguments
  \<^verbatim>\<open>args\<close> and the keyword arguments \<^verbatim>\<open>kwargs\<close>. \<open>invoke obj name args kwargs\<close>
  stands for \<^verbatim>\<open>getattr(obj, name)(*args, **kwargs)\<close>.
\<close>

type_synonym 'w invoke = "val \<Rightarrow> string \<Rightarrow> val list \<Rightarrow> kwargs \<Rightarrow> 'w run"

text \<open>
  \<^verbatim>\<open>get_hooked_pointer_method\<close>. Only a \<^verbatim>\<open>PointerTensor\<close> has the attributes
  \<^verbatim>\<open>owner\<close> and \<^verbatim>\<open>location\<close> here.
\<close>

definition get_hooked_pointer_method ::
  "'w externals \<Rightarrow> string \<Rightarrow> val \<Rightarrow> val list \<Rightarrow> kwargs \<Rightarrow> 'w run" where
  "get_hooked_pointer_method X attr self args kwargs st =
     (case self of
        Pointer owner location i \<Rightarrow>
          (let command = (attr, self, args)
           in call_send_command X owner location command st)
      | _ \<Rightarrow> (Inl AttributeError, st))"

text \<open>\<^verbatim>\<open>get_hooked_syft_method\<close>.\<close>

definition get_hooked_syft_method ::
  "'w invoke \<Rightarrow> string \<Rightarrow> val \<Rightarrow> val list \<Rightarrow> kwargs \<Rightarrow> 'w run" where
  "get_hooked_syft_method invoke attr self args kwargs st =
     (case hook_method_args attr self args of
        Inl e \<Rightarrow> (Inl e, st)
      | Inr (new_self, new_args) \<Rightarrow>
          (case invoke new_self attr new_args kwargs st of
             (Inl e, st') \<Rightarrow> (Inl e, st')
           | (Inr response, st') \<Rightarrow> (hook_response attr response (type_of self), st')))"

text \<open>
  \<^verbatim>\<open>get_hooked_method\<close>. \<^verbatim>\<open>args\<close> is always a tuple, so the first branch always runs
  \<^verbatim>\<open>cmd(*args)\<close>.
\<close>

definition get_hooked_method ::
  "'w invoke \<Rightarrow> string \<Rightarrow> val \<Rightarrow> val list \<Rightarrow> kwargs \<Rightarrow> 'w run" where
  "get_hooked_method invoke attr self args kwargs st =
     (if child self = None then invoke self (native_name attr) args [] st
      else
        (case hook_method_args attr self args of
           Inl e \<Rightarrow> (Inl e, st)
         | Inr (new_self, new_args) \<Rightarrow>
             (case invoke new_self attr new_args kwargs st of
                (Inl e, st') \<Rightarrow> (Inl e, st')
              | (Inr response, st') \<Rightarrow> (hook_response attr response (type_of self), st'))))"

text \<open>
  \<^verbatim>\<open>get_hooked_func\<close>: \<^verbatim>\<open>attr\<close> is the native function, read for its
  \<^verbatim>\<open>__module__\<close> and \<^verbatim>\<open>__name__\<close> (\<open>func_names\<close>; functions have both, the
  hook's closures as well).
\<close>

fun func_names :: "member \<Rightarrow> (string \<times> string) option" where
  "func_names (Function i m n q) = Some (m, n)"
| "func_names (BuiltinFunction i m n q) = Some (m, n)"
| "func_names (HookedFunc f) =
     (case func_names f of
        Some names \<Rightarrow> Some names
      | None \<Rightarrow> Some (''syft.frameworks.torch.hook'', ''overloaded_attr''))"
| "func_names (HookedMethod a) = Some (''syft.frameworks.torch.hook'', ''overloaded_attr'')"
| "func_names (HookedSyftMethod a) = Some (''syft.frameworks.torch.hook'', ''overloaded_attr'')"
| "func_names (HookedPointerMethod a) =
     Some (''syft.frameworks.torch.hook'', ''overloaded_attr'')"
| "func_names NewInit = Some (''syft.frameworks.torch.hook'', ''new___init__'')"
| "func_names m = None"

definition get_hooked_func ::
  "'w externals \<Rightarrow> member \<Rightarrow> val list \<Rightarrow> kwargs \<Rightarrow> 'w run" where
  "get_hooked_func X attr args kwargs st =
     (case func_names attr of
        None \<Rightarrow> (Inl AttributeError, st)
      | Some (module_name, name) \<Rightarrow>
          (let cmd_name = module_name @ ''.'' @ name;
               command = (cmd_name, VNone, args)
           in call_handle_func_command X command st))"

subsection \<open>Calling a method on an object\<close>

text \<open>
  \<^verbatim>\<open>getattr(obj, name)(*args, **kwargs)\<close>: the member is looked up on the class of the
  object and called. Method descriptors and functions that the hook did not create belong
  to the numeric library or to \<^verbatim>\<open>syft\<close>: they run outside, bound to the object (a
  builtin function does not bind, it runs without receiver). The other members are not
  called here. The first argument bounds the depth of nested calls, as the interpreter does;
  at depth zero the call raises \<^verbatim>\<open>RecursionError\<close>.
\<close>

fun class_of :: "syft_state \<Rightarrow> val \<Rightarrow> class_tbl option" where
  "class_of s (Native d) = Some (Tensor_cls s)"
| "class_of s (Wrapper c) = Some (Tensor_cls s)"
| "class_of s (Logging c) = Some (LoggingTensor_cls s)"
| "class_of s (Pointer w l i) = Some (PointerTensor_cls s)"
| "class_of s v = None"

fun call_member ::
  "'w invoke \<Rightarrow> 'w externals \<Rightarrow> member \<Rightarrow> val \<Rightarrow> val list \<Rightarrow> kwargs \<Rightarrow> 'w run" where
  "call_member invoke X (MethodDescriptor i q) self args kwargs st =
     call_native X i self args kwargs st"
| "call_member invoke X (Function i m n q) self args kwargs st =
     call_native X i self args kwargs st"
| "call_member invoke X (BuiltinFunction i m n q) self args kwargs st =
     call_native X i VNone args kwargs st"
| "call_member invoke X (HookedMethod attr) self args kwargs st =
     get_hooked_method invoke attr self args kwargs st"
| "call_member invoke X (HookedSyftMethod attr) self args kwargs st =
     get_hooked_syft_method invoke attr self args kwargs st"
| "call_member invoke X (HookedPointerMethod attr) self args kwargs st =
     get_hooked_pointer_method X attr self args kwargs st"
| "call_member invoke X (HookedFunc f) self args kwargs st =
     get_hooked_func X f (self # args) kwargs st"
| "call_member invoke X m self args kwargs st = (Inl TypeError, st)"

primrec call_method ::
  "nat \<Rightarrow> 'w externals \<Rightarrow> syft_state \<Rightarrow> val \<Rightarrow> string \<Rightarrow> val list \<Rightarrow> kwargs \<Rightarrow> 'w run" where
  "call_method 0 X s self attr args kwargs st = (Inl RecursionError, st)"
| "call_method (Suc depth) X s self attr args kwargs st =
     (case class_of s self of
        None \<Rightarrow> (Inl AttributeError, st)
      | Some cls \<Rightarrow>
          (case getattr cls attr of
             Inl e \<Rightarrow> (Inl e, st)
           | Inr m \<Rightarrow> call_member (call_method depth X s) X m self args kwargs st))"

text \<open>Calling a function of the module \<^verbatim>\<open>torch.nn.functional\<close>.\<close>

definition call_function ::
  "'w externals \<Rightarrow> syft_state \<Rightarrow> string \<Rightarrow> val list \<Rightarrow> kwargs \<Rightarrow> 'w run" where
  "call_function X s func args kwargs st =
     (case getattr (nn_functional s) func of
        Inl e \<Rightarrow> (Inl e, st)
      | Inr (HookedFunc f) \<Rightarrow> get_hooked_func X f args kwargs st
      | Inr (Function i m n q) \<Rightarrow> call_native X i VNone args kwargs st
      | Inr (BuiltinFunction i m n q) \<Rightarrow> call_native X i VNone args kwargs st
      | Inr m \<Rightarrow> (Inl TypeError, st))"

section \<open>The \<^verbatim>\<open>id\<close> property\<close>



text \<open>\<^verbatim>\<open>int.bit_length\<close>.\<close>

fun bit_length :: "nat \<Rightarrow> nat" where
  "bit_length n = (if n = 0 then 0 else Suc (bit_length (n div 2)))"



text \<open>The instance attribute \<^verbatim>\<open>_id\<close> of a tensor: \<open>None\<close> while it is not set.\<close>

record tensor_attrs =
  underscore_id :: "int option"


definition id_setter :: "tensor_attrs \<Rightarrow> int \<Rightarrow> tensor_attrs" where
  "id_setter self new = self\<lparr>underscore_id := Some new\<rparr>"

text \<open>\<^verbatim>\<open>"HookService" in lit.__qualname__\<close>, for a member that has a qualified name.\<close>

definition is_hook_service :: "member \<Rightarrow> bool" where
  "is_hook_service lit =
     (case qualname lit of Inr q \<Rightarrow> str_contains ''HookService'' q | Inl e \<Rightarrow> False)"

section \<open>A concrete scenario\<close>

text \<open>
  A small process state on which the properties below are exercised: \<^verbatim>\<open>dir(object)\<close> as
  Python 3.7 has it, an exclusion list, and classes with a few members of each kind.
\<close>


definition dir_object_py37 :: "string list" where
  "dir_object_py37 =
     [''__class__'', ''__delattr__'', ''__dir__'', ''__doc__'', ''__eq__'', ''__format__'',
      ''__ge__'', ''__getattribute__'', ''__gt__'', ''__hash__'', ''__init__'',
      ''__init_subclass__'', ''__le__'', ''__lt__'', ''__ne__'', ''__new__'', ''__reduce__'',
      ''__reduce_ex__'', ''__repr__'', ''__setattr__'', ''__sizeof__'', ''__str__'',
      ''__subclasshook__'']"

definition ex_exclude :: "string list" where
  "ex_exclude = [''__getitem__'', ''is_floating_point'']"

definition ex_Tensor :: class_tbl where
  "ex_Tensor =
     [(''__init__'', MethodDescriptor 0 (Some ''object.__init__'')),
      (''add'', MethodDescriptor 1 (Some ''_TensorBase.add'')),
      (''__getitem__'', MethodDescriptor 2 (Some ''_TensorBase.__getitem__'')),
      (''grad'', Other 3 None),
      (''volatile'', Unreadable),
      (''norm'', Function 4 ''torch.tensor'' ''norm'' ''Tensor.norm''),
      (''__repr__'', Function 5 ''torch.tensor'' ''__repr__'' ''Tensor.__repr__'')]"

definition ex_PointerTensor :: class_tbl where
  "ex_PointerTensor =
     [(''__init__'', Function 10 ''syft'' ''__init__'' ''PointerTensor.__init__''),
      (''__getitem__'', Function 11 ''syft'' ''__getitem__'' ''PointerTensor.__getitem__''),
      (''get'', Function 12 ''syft'' ''get'' ''PointerTensor.get'')]"

definition ex_LoggingTensor :: class_tbl where
  "ex_LoggingTensor =
     [(''__init__'', Function 20 ''syft'' ''__init__'' ''LoggingTensor.__init__''),
      (''add'', Function 21 ''syft'' ''add'' ''LoggingTensor.add'')]"

definition ex_TorchTensor :: class_tbl where
  "ex_TorchTensor =
     [(''__init__'', MethodDescriptor 0 (Some ''object.__init__'')),
      (''__repr__'', Function 30 ''syft'' ''__repr__'' ''TorchTensor.__repr__''),
      (''send'', Function 31 ''syft'' ''send'' ''TorchTensor.send'')]"

definition ex_functional :: class_tbl where
  "ex_functional =
     [(''relu'', Function 40 ''torch.nn.functional'' ''relu'' ''relu''),
      (''is_floating_point'', BuiltinFunction 41 ''torch'' ''is_floating_point'' ''is_floating_point''),
      (''native_dropout'', BuiltinFunction 42 ''torch'' ''native_dropout'' ''native_dropout''),
      (''math'', Other 43 None)]"

definition ex_state :: syft_state where
  "ex_state =
     \<lparr>torch_hooked = False, Tensor_cls = ex_Tensor, nn_functional = ex_functional,
      PointerTensor_cls = ex_PointerTensor, LoggingTensor_cls = ex_LoggingTensor,
      TorchTensor_cls = ex_TorchTensor, syft_local_worker = None, syft_torch_exclude = None,
      workers = (\<lambda>a. None), next_worker = 0, log_warnings = []\<rparr>"

text \<open>
  The outside world of the scenario. Implementation 1 is \<^verbatim>\<open>add(other, alpha=1)\<close> and
  implementation 4 is \<^verbatim>\<open>norm()\<close>, both on the data of native tensors; the worker answers
  every command with a pointer to the object 99 at the same location;
  \<^verbatim>\<open>handle_func_command\<close> answers with the tensor 0. \<open>ex_hooked_state\<close> is the scenario
  after \<^verbatim>\<open>TorchHook(torch)\<close>.
\<close>

fun ex_run_native :: "nat \<Rightarrow> val \<Rightarrow> val list \<Rightarrow> kwargs \<Rightarrow> py_error + val" where
  "ex_run_native i (Native a) [Native b] kwargs =
     (if i = 1 then
        (case map_of kwargs ''alpha'' of
           None \<Rightarrow> Inr (Native (a + b))
         | Some (VInt k) \<Rightarrow> Inr (Native (a + nat k * b))
         | Some v \<Rightarrow> Inl TypeError)
      else Inl TypeError)"
| "ex_run_native i (Native a) [] kwargs = (if i = 4 then Inr (Native a) else Inl TypeError)"
| "ex_run_native i self args kwargs = Inl TypeError"

definition ex_externals :: "unit externals" where
  "ex_externals =
     \<lparr>run_native = (\<lambda>i self args kwargs w. (ex_run_native i self args kwargs, w)),
      send_command = (\<lambda>owner location command w. (Inr (Pointer owner location 99), w)),
      handle_func_command = (\<lambda>command w. (Inr (Native 0), w))\<rparr>"

definition ex_hooked_state :: syft_state where
  "ex_hooked_state = snd (snd (TorchHook_init ex_exclude dir_object_py37 0 None True ex_state))"

section \<open>Properties of classes and of the registry\<close>

lemma set_dir: "set (dir T) = fst ` set T"
  by (simp add: dir_def)

lemma in_dir_iff: "a \<in> set (dir T) \<longleftrightarrow> map_of T a \<noteq> None"
  by (simp add: set_dir map_of_eq_None_iff)

lemma map_of_setattr: "map_of (setattr T a m) = (map_of T)(a \<mapsto> m)"
  by (simp add: setattr_def update_conv')

lemma set_dir_setattr: "set (dir (setattr T a m)) = insert a (set (dir T))"
  by (auto simp: in_dir_iff map_of_setattr split: if_splits)


lemma hasattr_iff: "hasattr T a \<longleftrightarrow> (\<exists>m. getattr T a = Inr m)"
  by (auto simp: hasattr_def split: sum.splits)

lemma qualname_error: "qualname m = Inl e \<Longrightarrow> e = AttributeError"
  by (induction m) (auto split: option.splits sum.splits)

lemma is_service_func_eq: "is_service_func lit = Inr (is_hook_service lit)"
  by (auto simp: is_service_func_def is_hook_service_def
      split: sum.splits py_error.splits dest: qualname_error)

lemma should_overload_total: "\<exists>b. should_overload exclude dir_object T attr = Inr b"
  by (auto simp: should_overload_def hasattr_iff Let_def is_service_func_eq split: sum.splits)

lemma should_overload_True_iff:
  "should_overload exclude dir_object T attr = Inr True \<longleftrightarrow>
     attr \<notin> set exclude \<and>
     (\<exists>lit. getattr T attr = Inr lit \<and>
        (ismethoddescriptor lit \<or> (is_FunctionType lit \<and> \<not> is_hook_service lit))) \<and>
     attr \<notin> set dir_object \<and> \<not> re_match_native attr"
  by (auto simp: should_overload_def hasattr_iff Let_def is_service_func_eq split: sum.splits)


lemma which_methods_loop_mem:
  "which_methods_loop exclude dir_object T attrs acc = Inr l \<Longrightarrow>
   x \<in> set l \<longleftrightarrow>
     x \<in> set acc \<or> (x \<in> set attrs \<and> should_overload exclude dir_object T x = Inr True)"
proof (induction attrs arbitrary: acc)
  case Nil
  then show ?case by simp
next
  case (Cons a attrs)
  obtain b where b: "should_overload exclude dir_object T a = Inr b"
    using should_overload_total by blast
  show ?case
  proof (cases b)
    case True
    with b Cons.prems
    have "which_methods_loop exclude dir_object T attrs (acc @ [a]) = Inr l" by simp
    from Cons.IH[OF this] b True show ?thesis by auto
  next
    case False
    with b Cons.prems have "which_methods_loop exclude dir_object T attrs acc = Inr l" by simp
    from Cons.IH[OF this] b False show ?thesis by auto
  qed
qed

lemma which_methods_mem:
  "which_methods_should_we_auto_overload exclude dir_object T = Inr ovl \<Longrightarrow>
   x \<in> set ovl \<longleftrightarrow> x \<in> set (dir T) \<and> should_overload exclude dir_object T x = Inr True"
  by (simp add: which_methods_should_we_auto_overload_def which_methods_loop_mem)


lemma re_match_native_native_name: "re_match_native (native_name a)"
  by (simp add: re_match_native_def native_name_def)

lemma re_match_native_neq: "\<not> re_match_native b \<Longrightarrow> b \<noteq> native_name a"
  using re_match_native_native_name by auto

section \<open>Properties of the installation loops\<close>

lemma hook_pointer_tensor_methods_map_of:
  "map_of (hook_pointer_tensor_methods ovl P) n =
     (if n \<in> set (dir P) then map_of P n
      else if n \<in> set ovl then Some (HookedPointerMethod n) else None)"
proof (induction ovl arbitrary: P)
  case Nil
  then show ?case by (simp add: in_dir_iff)
next
  case (Cons a ovl)
  show ?case
  proof (cases "a \<in> set (dir P)")
    case True
    then show ?thesis using Cons.IH[of P] by auto
  next
    case False
    then show ?thesis using Cons.IH[of "setattr P a (HookedPointerMethod a)"]
      by (auto simp: set_dir_setattr map_of_setattr in_dir_iff)
  qed
qed

lemma hook_syft_tensor_methods_map_of:
  "map_of (hook_syft_tensor_methods ovl L) n =
     (if n \<in> set (dir L) then map_of L n
      else if n \<in> set ovl then Some (HookedSyftMethod n) else None)"
proof (induction ovl arbitrary: L)
  case Nil
  then show ?case by (simp add: in_dir_iff)
next
  case (Cons a ovl)
  show ?case
  proof (cases "a \<in> set (dir L)")
    case True
    then show ?thesis using Cons.IH[of L] by auto
  next
    case False
    then show ?thesis using Cons.IH[of "setattr L a (HookedSyftMethod a)"]
      by (auto simp: set_dir_setattr map_of_setattr in_dir_iff)
  qed
qed

lemma hook_native_methods_frame:
  "n \<in> set (dir T) \<Longrightarrow> n \<notin> set ovl \<or> native_name n \<in> set (dir T) \<Longrightarrow>
   map_of (snd (hook_native_methods ovl T)) n = map_of T n"
proof (induction ovl arbitrary: T)
  case Nil
  then show ?case by simp
next
  case (Cons a ovl)
  show ?case
  proof (cases "native_name a \<in> set (dir T)")
    case True
    have "n \<notin> set ovl \<or> native_name n \<in> set (dir T)" using Cons.prems(2) by auto
    from Cons.IH[OF Cons.prems(1) this] True show ?thesis by simp
  next
    case False
    with Cons.prems have na: "n \<noteq> a" and nn: "n \<noteq> native_name a" by auto
    show ?thesis
    proof (cases "getattr T a")
      case (Inl e)
      then show ?thesis using False by simp
    next
      case (Inr m)
      let ?T' = "setattr (setattr T (native_name a) m) a (HookedMethod a)"
      have d: "n \<in> set (dir ?T')" using Cons.prems(1) by (simp add: set_dir_setattr)
      have c: "n \<notin> set ovl \<or> native_name n \<in> set (dir ?T')"
        using Cons.prems(2) by (auto simp: set_dir_setattr)
      from Cons.IH[OF d c] show ?thesis using False Inr na nn
        by (simp add: map_of_setattr)
    qed
  qed
qed

lemma hook_native_methods_dir_mono:
  "n \<in> set (dir T) \<Longrightarrow> n \<in> set (dir (snd (hook_native_methods ovl T)))"
proof (induction ovl arbitrary: T)
  case Nil
  then show ?case by simp
next
  case (Cons a ovl)
  show ?case
  proof (cases "native_name a \<in> set (dir T)")
    case True
    then show ?thesis using Cons by simp
  next
    case False
    show ?thesis
    proof (cases "getattr T a")
      case (Inl e)
      then show ?thesis using False Cons.prems by simp
    next
      case (Inr m)
      let ?T' = "setattr (setattr T (native_name a) m) a (HookedMethod a)"
      have "n \<in> set (dir ?T')" using Cons.prems by (simp add: set_dir_setattr)
      from Cons.IH[OF this] show ?thesis using False Inr by simp
    qed
  qed
qed

lemma hook_native_methods_saved:
  "fst (hook_native_methods ovl T) = None \<Longrightarrow> a \<in> set ovl \<Longrightarrow>
   native_name a \<in> set (dir (snd (hook_native_methods ovl T)))"
proof (induction ovl arbitrary: T)
  case Nil
  then show ?case by simp
next
  case (Cons b ovl)
  show ?case
  proof (cases "native_name b \<in> set (dir T)")
    case True
    show ?thesis
    proof (cases "a = b")
      case True
      with \<open>native_name b \<in> set (dir T)\<close> show ?thesis
        using hook_native_methods_dir_mono[of "native_name b" T ovl] by simp
    next
      case False
      with Cons True show ?thesis by simp
    qed
  next
    case False
    show ?thesis
    proof (cases "getattr T b")
      case (Inl e)
      then show ?thesis using False Cons.prems by simp
    next
      case (Inr m)
      let ?T' = "setattr (setattr T (native_name b) m) b (HookedMethod b)"
      have eq: "hook_native_methods (b # ovl) T = hook_native_methods ovl ?T'"
        using False Inr by simp
      show ?thesis
      proof (cases "a = b")
        case True
        have "native_name b \<in> set (dir ?T')" by (simp add: set_dir_setattr)
        from hook_native_methods_dir_mono[OF this, of ovl] show ?thesis using eq True by simp
      next
        case False
        with Cons.prems have "a \<in> set ovl" by simp
        moreover have "fst (hook_native_methods ovl ?T') = None" using Cons.prems(1) eq by simp
        ultimately show ?thesis using Cons.IH[of ?T'] eq by simp
      qed
    qed
  qed
qed

lemma hook_native_methods_noop:
  "\<forall>a \<in> set ovl. native_name a \<in> set (dir T) \<Longrightarrow> hook_native_methods ovl T = (None, T)"
  by (induction ovl arbitrary: T) auto

lemma hook_native_methods_idem:
  assumes "hook_native_methods ovl T = (None, T')"
  shows "hook_native_methods ovl T' = (None, T')"
proof -
  have "\<forall>a \<in> set ovl. native_name a \<in> set (dir T')"
    using hook_native_methods_saved[of ovl T] assms by simp
  then show ?thesis by (rule hook_native_methods_noop)
qed


lemma hook_native_methods_installs:
  assumes "fst (hook_native_methods ovl T) = None"
    and "a \<in> set ovl"
    and "native_name a \<notin> set (dir T)"
    and "\<forall>b \<in> set ovl. \<not> re_match_native b"
  shows "map_of (snd (hook_native_methods ovl T)) a = Some (HookedMethod a) \<and>
         (\<exists>m. getattr T a = Inr m \<and>
              map_of (snd (hook_native_methods ovl T)) (native_name a) = Some m)"
  using assms
proof (induction ovl arbitrary: T)
  case Nil
  then show ?case by simp
next
  case (Cons b ovl)
  have nb: "\<not> re_match_native b" and rest: "\<forall>c \<in> set ovl. \<not> re_match_native c"
    using Cons.prems(4) by auto
  have na: "\<not> re_match_native a" using Cons.prems(2,4) by auto
  show ?case
  proof (cases "native_name b \<in> set (dir T)")
    case True
    then have ab: "a \<noteq> b" using Cons.prems(3) by auto
    then have "a \<in> set ovl" using Cons.prems(2) by simp
    moreover have "fst (hook_native_methods ovl T) = None" using Cons.prems(1) True by simp
    ultimately show ?thesis using Cons.IH[of T] Cons.prems(3) rest True by simp
  next
    case False
    show ?thesis
    proof (cases "getattr T b")
      case (Inl e)
      then show ?thesis using False Cons.prems(1) by simp
    next
      case (Inr m)
      let ?T' = "setattr (setattr T (native_name b) m) b (HookedMethod b)"
      have eq: "hook_native_methods (b # ovl) T = hook_native_methods ovl ?T'"
        using False Inr by simp
      show ?thesis
      proof (cases "a = b")
        case True
        have bn: "b \<noteq> native_name b" using nb by (rule re_match_native_neq)
        have d1: "b \<in> set (dir ?T')" by (simp add: set_dir_setattr)
        have d2: "native_name b \<in> set (dir ?T')" by (simp add: set_dir_setattr)
        have "map_of (snd (hook_native_methods ovl ?T')) b = map_of ?T' b"
          using hook_native_methods_frame[OF d1] d2 by blast
        then have 1: "map_of (snd (hook_native_methods ovl ?T')) b = Some (HookedMethod b)"
          by (simp add: map_of_setattr)
        have "native_name b \<notin> set ovl" using rest re_match_native_native_name by blast
        then have "map_of (snd (hook_native_methods ovl ?T')) (native_name b)
            = map_of ?T' (native_name b)"
          using hook_native_methods_frame[OF d2] by blast
        then have 2: "map_of (snd (hook_native_methods ovl ?T')) (native_name b) = Some m"
          using bn by (simp add: map_of_setattr)
        from 1 2 Inr eq True show ?thesis by simp
      next
        case F: False
        then have ain: "a \<in> set ovl" using Cons.prems(2) by simp
        have an: "a \<noteq> native_name b" using na by (rule re_match_native_neq)
        have bn': "b \<noteq> native_name a" using nb by (rule re_match_native_neq)
        have nn: "native_name a \<noteq> native_name b" using F by (simp add: native_name_def)
        have d: "native_name a \<notin> set (dir ?T')"
          using Cons.prems(3) bn' nn by (auto simp: set_dir_setattr)
        have f: "fst (hook_native_methods ovl ?T') = None" using Cons.prems(1) eq by simp
        have g: "getattr ?T' a = getattr T a"
          using F an by (simp add: getattr_def map_of_setattr)
        from Cons.IH[OF f ain d rest] g eq show ?thesis by simp
      qed
    qed
  qed
qed

lemma hook_torch_module_loop_frame:
  "n \<in> set (dir M) \<Longrightarrow>
   n \<in> set exclude \<or> str_contains ''native_'' n \<or> native_name n \<in> set (dir M) \<Longrightarrow>
   map_of (snd (hook_torch_module_loop exclude funcs M)) n = map_of M n"
proof (induction funcs arbitrary: M)
  case Nil
  then show ?case by simp
next
  case (Cons f funcs)
  show ?case
  proof (cases "f \<in> set exclude \<or> str_contains ''native_'' f \<or> native_name f \<in> set (dir M)")
    case True
    then show ?thesis using Cons by auto
  next
    case False
    then have nf: "n \<noteq> f" and nn: "n \<noteq> native_name f" using Cons.prems by auto
    show ?thesis
    proof (cases "getattr M f")
      case (Inl e)
      then show ?thesis using False by simp
    next
      case (Inr m)
      show ?thesis
      proof (cases "is_FunctionType m \<or> is_BuiltinFunctionType m")
        case True
        let ?M' = "setattr (setattr M (native_name f) m) f (HookedFunc m)"
        have d: "n \<in> set (dir ?M')" using Cons.prems(1) by (simp add: set_dir_setattr)
        have c: "n \<in> set exclude \<or> str_contains ''native_'' n \<or> native_name n \<in> set (dir ?M')"
          using Cons.prems(2) by (auto simp: set_dir_setattr)
        from Cons.IH[OF d c] show ?thesis
          using False Inr True nf nn by (simp add: map_of_setattr)
      next
        case F2: False
        then show ?thesis using False Inr Cons by simp
      qed
    qed
  qed
qed

lemma TorchHook_init_hooked:
  "torch_hooked s \<Longrightarrow>
   TorchHook_init ex dobj self lw c s =
     (case syft_local_worker s of
        None \<Rightarrow> (Some AttributeError, \<lparr>local_worker = lw, to_auto_overload = None\<rparr>,
                  s\<lparr>log_warnings := log_warnings s @ [already_hooked_warning]\<rparr>)
      | Some w \<Rightarrow> (None, \<lparr>local_worker = w, to_auto_overload = None\<rparr>,
                  s\<lparr>log_warnings := log_warnings s @ [already_hooked_warning]\<rparr>))"
  by (simp add: TorchHook_init_def Let_def split: option.splits)

lemma TorchHook_init_sets_marker:
  "torch_hooked (snd (snd (TorchHook_init ex dobj self lw c s)))"
proof (cases "torch_hooked s")
  case True
  then show ?thesis by (simp add: TorchHook_init_hooked split: option.splits)
next
  case False
  then show ?thesis
    by (cases lw)
       (auto simp: TorchHook_init_def Let_def VirtualWorker_def set_worker_hook_def
          split: prod.splits option.splits)
qed

lemma TorchHook_init_success:
  "TorchHook_init ex dobj self lw c s = (None, h, s') \<Longrightarrow>
   syft_local_worker s' = Some (local_worker h)"
proof (cases "torch_hooked s")
  case True
  assume "TorchHook_init ex dobj self lw c s = (None, h, s')"
  with True show ?thesis by (auto simp: TorchHook_init_hooked split: option.splits)
next
  case False
  assume "TorchHook_init ex dobj self lw c s = (None, h, s')"
  with False show ?thesis
    by (cases lw)
       (auto simp: TorchHook_init_def Let_def VirtualWorker_def set_worker_hook_def
          split: prod.splits option.splits)
qed

section \<open>Properties of the dispatchers\<close>








lemma get_hooked_method_native:
  "child self = None \<Longrightarrow>
   get_hooked_method invoke attr self args kwargs st = invoke self (native_name attr) args [] st"
  by (simp add: get_hooked_method_def)

section \<open>Properties of the identifier\<close>

declare bit_length.simps [simp del]


lemma bit_length_lower: "bit_length n = Suc e \<Longrightarrow> 2 ^ e \<le> n"
proof (induction e arbitrary: n)
  case 0
  have "bit_length 0 = 0" by (simp add: bit_length.simps[of 0])
  with 0 have "n \<noteq> 0" by (cases "n = 0") simp_all
  then show ?case by simp
next
  case (Suc e)
  have "bit_length 0 = 0" by (simp add: bit_length.simps[of 0])
  with Suc.prems have n0: "n \<noteq> 0" by (cases "n = 0") simp_all
  with Suc.prems have "bit_length (n div 2) = Suc e" by (simp add: bit_length.simps[of n])
  from Suc.IH[OF this] have "2 ^ e \<le> n div 2" .
  then show ?case by simp
qed







section \<open>The claims about the registry and the installation\<close>

text \<open>
  Claim C4, as the code has it. A name is put on the overload list exactly when
  \<^verbatim>\<open>dir\<close> lists it on the native type, it is not in the exclusion list, it reads as a
  method descriptor or as a Python function whose qualified name does not contain
  \<^verbatim>\<open>HookService\<close>, it is not one of the names of \<^verbatim>\<open>dir(object)\<close>, and the test
  \<^verbatim>\<open>re.match("native*", attr)\<close> fails on it; a selected name is never of the form
  \<^verbatim>\<open>native_<name>\<close>. Consequently, for a name of the exclusion list, no installation
  loop touches the entry of that name: the Pointer class and the decorating class keep
  theirs, and the native class keeps the entry of every name it already has.
\<close>

theorem auto_overload_selection:
  assumes "which_methods_should_we_auto_overload exclude dir_object T = Inr ovl"
  shows "(attr \<in> set ovl \<longleftrightarrow>
            attr \<in> set (dir T) \<and> attr \<notin> set exclude \<and>
            (\<exists>lit. getattr T attr = Inr lit \<and>
               (ismethoddescriptor lit \<or> (is_FunctionType lit \<and> \<not> is_hook_service lit))) \<and>
            attr \<notin> set dir_object \<and> \<not> re_match_native attr) \<and>
         (attr \<in> set ovl \<longrightarrow> (\<forall>a. attr \<noteq> native_name a)) \<and>
         (\<forall>n \<in> set exclude.
            n \<notin> set ovl \<and>
            map_of (hook_pointer_tensor_methods ovl P) n = map_of P n \<and>
            map_of (hook_syft_tensor_methods ovl L) n = map_of L n \<and>
            (n \<in> set (dir T') \<longrightarrow> map_of (snd (hook_native_methods ovl T')) n = map_of T' n))"
proof -
  have sel: "\<And>x. x \<in> set ovl \<longleftrightarrow>
      x \<in> set (dir T) \<and> should_overload exclude dir_object T x = Inr True"
    using which_methods_mem[OF assms] by simp
  have excl: "\<And>n. n \<in> set exclude \<Longrightarrow> n \<notin> set ovl"
    by (simp add: sel should_overload_True_iff)
  have c1: "attr \<in> set ovl \<longleftrightarrow>
            attr \<in> set (dir T) \<and> attr \<notin> set exclude \<and>
            (\<exists>lit. getattr T attr = Inr lit \<and>
               (ismethoddescriptor lit \<or> (is_FunctionType lit \<and> \<not> is_hook_service lit))) \<and>
            attr \<notin> set dir_object \<and> \<not> re_match_native attr"
    by (simp add: sel should_overload_True_iff)
  have c2: "attr \<in> set ovl \<longrightarrow> (\<forall>a. attr \<noteq> native_name a)"
    using c1 re_match_native_native_name by auto
  have c3: "\<forall>n \<in> set exclude.
            n \<notin> set ovl \<and>
            map_of (hook_pointer_tensor_methods ovl P) n = map_of P n \<and>
            map_of (hook_syft_tensor_methods ovl L) n = map_of L n \<and>
            (n \<in> set (dir T') \<longrightarrow> map_of (snd (hook_native_methods ovl T')) n = map_of T' n)"
  proof
    fix n assume "n \<in> set exclude"
    then have n: "n \<notin> set ovl" by (rule excl)
    then show "n \<notin> set ovl \<and>
            map_of (hook_pointer_tensor_methods ovl P) n = map_of P n \<and>
            map_of (hook_syft_tensor_methods ovl L) n = map_of L n \<and>
            (n \<in> set (dir T') \<longrightarrow> map_of (snd (hook_native_methods ovl T')) n = map_of T' n)"
      using hook_native_methods_frame[of n T' ovl]
      by (simp add: hook_pointer_tensor_methods_map_of hook_syft_tensor_methods_map_of in_dir_iff)
  qed
  from c1 c2 c3 show ?thesis by blast
qed

text \<open>The same on the scenario: \<^verbatim>\<open>add\<close> is selected, \<^verbatim>\<open>__getitem__\<close> is excluded.\<close>

theorem auto_overload_selection_witness:
  "which_methods_should_we_auto_overload ex_exclude dir_object_py37 ex_Tensor
     = Inr [''add'', ''norm''] \<and>
   ''add'' \<in> set (dir ex_Tensor) \<and> ''add'' \<notin> set ex_exclude \<and>
   getattr ex_Tensor ''add'' = Inr (MethodDescriptor 1 (Some ''_TensorBase.add'')) \<and>
   ''add'' \<notin> set dir_object_py37 \<and> \<not> re_match_native ''add'' \<and>
   ''__getitem__'' \<in> set ex_exclude \<and> ''__getitem__'' \<in> set (dir ex_Tensor) \<and>
   map_of (hook_pointer_tensor_methods [''add'', ''norm''] ex_PointerTensor) ''__getitem__''
     = map_of ex_PointerTensor ''__getitem__'' \<and>
   map_of (snd (hook_native_methods [''add'', ''norm''] ex_Tensor)) ''__getitem__''
     = map_of ex_Tensor ''__getitem__''"
proof -
  have h: "which_methods_should_we_auto_overload ex_exclude dir_object_py37 ex_Tensor
             = Inr [''add'', ''norm'']"
    by code_simp
  have e: "''__getitem__'' \<in> set ex_exclude" by (simp add: ex_exclude_def)
  have d: "''__getitem__'' \<in> set (dir ex_Tensor)" by code_simp
  have a: "''add'' \<in> set [''add'', ''norm'']" by simp
  note t = auto_overload_selection[OF h, of "''add''" ex_PointerTensor ex_LoggingTensor ex_Tensor]
  from t a have 1: "''add'' \<in> set (dir ex_Tensor) \<and> ''add'' \<notin> set ex_exclude \<and>
      ''add'' \<notin> set dir_object_py37 \<and> \<not> re_match_native ''add''" by blast
  from t e d have 2:
    "map_of (hook_pointer_tensor_methods [''add'', ''norm''] ex_PointerTensor) ''__getitem__''
       = map_of ex_PointerTensor ''__getitem__'' \<and>
     map_of (snd (hook_native_methods [''add'', ''norm''] ex_Tensor)) ''__getitem__''
       = map_of ex_Tensor ''__getitem__''" by blast
  have 3: "getattr ex_Tensor ''add'' = Inr (MethodDescriptor 1 (Some ''_TensorBase.add''))"
    by code_simp
  from h 1 2 3 e d show ?thesis by blast
qed

text \<open>
  Without the test on the qualified name the selection is not as stated: a Python function
  named \<^verbatim>\<open>foo\<close> whose qualified name is \<^verbatim>\<open>HookService.foo\<close> meets the four conditions
  of the claim (not excluded, a function, no native name, not a name of \<^verbatim>\<open>object\<close>) and is
  not selected.
\<close>

theorem hook_service_function_counterexample:
  "''foo'' \<in> set (dir [(''foo'', Function 0 ''syft'' ''foo'' ''HookService.foo'')]) \<and>
   ''foo'' \<notin> set [''__getitem__''] \<and>
   getattr [(''foo'', Function 0 ''syft'' ''foo'' ''HookService.foo'')] ''foo''
     = Inr (Function 0 ''syft'' ''foo'' ''HookService.foo'') \<and>
   is_FunctionType (Function 0 ''syft'' ''foo'' ''HookService.foo'') \<and>
   \<not> re_match_native ''foo'' \<and> take 7 ''foo'' \<noteq> ''native_'' \<and>
   ''foo'' \<notin> set dir_object_py37 \<and>
   which_methods_should_we_auto_overload [''__getitem__''] dir_object_py37
     [(''foo'', Function 0 ''syft'' ''foo'' ''HookService.foo'')] = Inr []"
  by code_simp

text \<open>
  Claim C5. Whatever the first call of the constructor did, a second call finds the marker:
  it logs the warning and leaves every class, the module and every other part of the state as
  they are, it computes no overload list, and it returns normally when the first call did.
  Within the hooking itself the saved original of a name is stored once: a pass of
  \<^verbatim>\<open>_hook_native_methods\<close> over a class that a complete pass has produced changes
  nothing; over a list without native names, a saved original that is already there is never
  overwritten, and a name that gets its dispatcher has, as its saved original, the member it
  had before.
\<close>

theorem hooking_is_idempotent:
  assumes "TorchHook_init ex1 dobj1 self1 lw1 c1 s = (e1, h1, s1)"
  shows "snd (snd (TorchHook_init ex2 dobj2 self2 lw2 c2 s1))
           = s1\<lparr>log_warnings := log_warnings s1 @ [already_hooked_warning]\<rparr> \<and>
         to_auto_overload (fst (snd (TorchHook_init ex2 dobj2 self2 lw2 c2 s1))) = None \<and>
         (e1 = None \<longrightarrow> fst (TorchHook_init ex2 dobj2 self2 lw2 c2 s1) = None) \<and>
         (hook_native_methods ovl T = (None, T') \<longrightarrow> hook_native_methods ovl T' = (None, T')) \<and>
         ((\<forall>b \<in> set ovl. \<not> re_match_native b) \<and> native_name a \<in> set (dir T) \<longrightarrow>
            map_of (snd (hook_native_methods ovl T)) (native_name a) = map_of T (native_name a)) \<and>
         ((\<forall>b \<in> set ovl. \<not> re_match_native b) \<and> native_name a \<notin> set (dir T) \<and>
          a \<in> set ovl \<and> fst (hook_native_methods ovl T) = None \<longrightarrow>
            map_of (snd (hook_native_methods ovl T)) a = Some (HookedMethod a) \<and>
            map_of (snd (hook_native_methods ovl T)) (native_name a) = map_of T a)"
proof -
  have m: "torch_hooked s1"
    using TorchHook_init_sets_marker[of ex1 dobj1 self1 lw1 c1 s] assms by simp
  have c1: "snd (snd (TorchHook_init ex2 dobj2 self2 lw2 c2 s1))
           = s1\<lparr>log_warnings := log_warnings s1 @ [already_hooked_warning]\<rparr>"
    using m by (simp add: TorchHook_init_hooked split: option.splits)
  have c2: "to_auto_overload (fst (snd (TorchHook_init ex2 dobj2 self2 lw2 c2 s1))) = None"
    using m by (simp add: TorchHook_init_hooked split: option.splits)
  have c3: "e1 = None \<longrightarrow> fst (TorchHook_init ex2 dobj2 self2 lw2 c2 s1) = None"
  proof
    assume "e1 = None"
    with assms have "syft_local_worker s1 = Some (local_worker h1)"
      using TorchHook_init_success by simp
    with m show "fst (TorchHook_init ex2 dobj2 self2 lw2 c2 s1) = None"
      by (simp add: TorchHook_init_hooked)
  qed
  have c4: "hook_native_methods ovl T = (None, T') \<longrightarrow> hook_native_methods ovl T' = (None, T')"
    using hook_native_methods_idem by blast
  have c5: "(\<forall>b \<in> set ovl. \<not> re_match_native b) \<and> native_name a \<in> set (dir T) \<longrightarrow>
            map_of (snd (hook_native_methods ovl T)) (native_name a) = map_of T (native_name a)"
    using hook_native_methods_frame[of "native_name a" T ovl] re_match_native_native_name[of a]
    by blast
  have c6: "(\<forall>b \<in> set ovl. \<not> re_match_native b) \<and> native_name a \<notin> set (dir T) \<and>
          a \<in> set ovl \<and> fst (hook_native_methods ovl T) = None \<longrightarrow>
            map_of (snd (hook_native_methods ovl T)) a = Some (HookedMethod a) \<and>
            map_of (snd (hook_native_methods ovl T)) (native_name a) = map_of T a"
  proof
    assume h: "(\<forall>b \<in> set ovl. \<not> re_match_native b) \<and> native_name a \<notin> set (dir T) \<and>
          a \<in> set ovl \<and> fst (hook_native_methods ovl T) = None"
    from h have h1: "\<forall>b \<in> set ovl. \<not> re_match_native b"
      and h2: "native_name a \<notin> set (dir T)"
      and h3: "a \<in> set ovl"
      and h4: "fst (hook_native_methods ovl T) = None"
      by simp_all
    from hook_native_methods_installs[OF h4 h3 h2 h1]
    obtain m where i: "map_of (snd (hook_native_methods ovl T)) a = Some (HookedMethod a)"
      and g: "getattr T a = Inr m"
      and n: "map_of (snd (hook_native_methods ovl T)) (native_name a) = Some m"
      by auto
    from g have "map_of T a = Some m"
      by (auto simp: getattr_def split: option.splits member.splits)
    with i n show "map_of (snd (hook_native_methods ovl T)) a = Some (HookedMethod a) \<and>
            map_of (snd (hook_native_methods ovl T)) (native_name a) = map_of T a"
      by simp
  qed
  from c1 c2 c3 c4 c5 c6 show ?thesis by blast
qed

text \<open>The same on the scenario: two constructor calls, and two passes over \<^verbatim>\<open>add\<close>.\<close>

theorem hooking_is_idempotent_witness:
  "fst (TorchHook_init ex_exclude dir_object_py37 0 None True ex_state) = None \<and>
   fst (TorchHook_init ex_exclude dir_object_py37 1 (Some 7) True
          (snd (snd (TorchHook_init ex_exclude dir_object_py37 0 None True ex_state)))) = None \<and>
   Tensor_cls (snd (snd (TorchHook_init ex_exclude dir_object_py37 1 (Some 7) True
          (snd (snd (TorchHook_init ex_exclude dir_object_py37 0 None True ex_state))))))
     = Tensor_cls (snd (snd (TorchHook_init ex_exclude dir_object_py37 0 None True ex_state))) \<and>
   log_warnings (snd (snd (TorchHook_init ex_exclude dir_object_py37 1 (Some 7) True
          (snd (snd (TorchHook_init ex_exclude dir_object_py37 0 None True ex_state))))))
     = [already_hooked_warning] \<and>
   hook_native_methods [''add''] ex_Tensor
     = (None, setattr (setattr ex_Tensor ''native_add'' (MethodDescriptor 1 (Some ''_TensorBase.add''))) ''add'' (HookedMethod ''add'')) \<and>
   hook_native_methods [''add'']
       (setattr (setattr ex_Tensor ''native_add'' (MethodDescriptor 1 (Some ''_TensorBase.add''))) ''add'' (HookedMethod ''add''))
     = (None, setattr (setattr ex_Tensor ''native_add'' (MethodDescriptor 1 (Some ''_TensorBase.add''))) ''add'' (HookedMethod ''add'')) \<and>
   \<not> re_match_native ''add'' \<and> native_name ''add'' \<notin> set (dir ex_Tensor) \<and>
   map_of (snd (hook_native_methods [''add''] ex_Tensor)) ''add'' = Some (HookedMethod ''add'') \<and>
   map_of (snd (hook_native_methods [''add''] ex_Tensor)) (native_name ''add'')
     = map_of ex_Tensor ''add'' \<and>
   native_name ''add'' \<in> set (dir (setattr ex_Tensor ''native_add'' (Other 9 None))) \<and>
   map_of (snd (hook_native_methods [''add''] (setattr ex_Tensor ''native_add'' (Other 9 None))))
       (native_name ''add'')
     = Some (Other 9 None)"
proof -
  define R1 where "R1 = TorchHook_init ex_exclude dir_object_py37 0 None True ex_state"
  have a: "TorchHook_init ex_exclude dir_object_py37 0 None True ex_state
             = (fst R1, fst (snd R1), snd (snd R1))"
    by (simp add: R1_def)
  have e: "fst R1 = None" unfolding R1_def by code_simp
  have w: "log_warnings (snd (snd R1)) = []" unfolding R1_def by code_simp
  have n: "hook_native_methods [''add''] ex_Tensor
     = (None, setattr (setattr ex_Tensor ''native_add'' (MethodDescriptor 1 (Some ''_TensorBase.add''))) ''add'' (HookedMethod ''add''))"
    by code_simp
  note t = hooking_is_idempotent[OF a, of ex_exclude dir_object_py37 1 "Some 7" True
      "[''add'']" ex_Tensor
      "setattr (setattr ex_Tensor ''native_add'' (MethodDescriptor 1 (Some ''_TensorBase.add''))) ''add'' (HookedMethod ''add'')" "''add''"]
  from t e have 1: "fst (TorchHook_init ex_exclude dir_object_py37 1 (Some 7) True
          (snd (snd R1))) = None" by blast
  from t have 2: "snd (snd (TorchHook_init ex_exclude dir_object_py37 1 (Some 7) True (snd (snd R1))))
           = (snd (snd R1))\<lparr>log_warnings := log_warnings (snd (snd R1)) @ [already_hooked_warning]\<rparr>"
    by blast
  from t n have 3: "hook_native_methods [''add'']
       (setattr (setattr ex_Tensor ''native_add'' (MethodDescriptor 1 (Some ''_TensorBase.add''))) ''add'' (HookedMethod ''add''))
     = (None, setattr (setattr ex_Tensor ''native_add'' (MethodDescriptor 1 (Some ''_TensorBase.add''))) ''add'' (HookedMethod ''add''))"
    by blast
  have r: "\<forall>b \<in> set [''add'']. \<not> re_match_native b" by code_simp
  have d: "native_name ''add'' \<in> set (dir (setattr ex_Tensor ''native_add'' (Other 9 None)))"
    by code_simp
  have v: "map_of (setattr ex_Tensor ''native_add'' (Other 9 None)) (native_name ''add'')
     = Some (Other 9 None)"
    by code_simp
  from hooking_is_idempotent[OF a, of ex_exclude dir_object_py37 1 "Some 7" True
      "[''add'']" "setattr ex_Tensor ''native_add'' (Other 9 None)" ex_Tensor "''add''"] r d v
  have 4: "map_of (snd (hook_native_methods [''add'']
         (setattr ex_Tensor ''native_add'' (Other 9 None)))) (native_name ''add'')
     = Some (Other 9 None)"
    by simp
  from r have 5: "\<not> re_match_native ''add''" by simp
  have d': "native_name ''add'' \<notin> set (dir ex_Tensor)" by code_simp
  have i: "''add'' \<in> set [''add'']" by simp
  from n have f: "fst (hook_native_methods [''add''] ex_Tensor) = None" by simp
  from t r d' i f
  have 6: "map_of (snd (hook_native_methods [''add''] ex_Tensor)) ''add''
       = Some (HookedMethod ''add'') \<and>
     map_of (snd (hook_native_methods [''add''] ex_Tensor)) (native_name ''add'')
       = map_of ex_Tensor ''add''"
    by blast
  from e 1 2 3 n w 4 5 d d' 6 show ?thesis unfolding R1_def by simp
qed




text \<open>
  Claim C9. After \<^verbatim>\<open>_hook_pointer_tensor_methods\<close> and after
  \<^verbatim>\<open>_hook_syft_tensor_methods\<close>, every name the class had before has the member it had
  before; the only new entries are the dispatchers of the listed names that were absent.
\<close>

theorem existing_attributes_unchanged:
  "map_of (hook_pointer_tensor_methods ovl P) n =
     (if n \<in> set (dir P) then map_of P n
      else if n \<in> set ovl then Some (HookedPointerMethod n) else None) \<and>
   map_of (hook_syft_tensor_methods ovl L) n =
     (if n \<in> set (dir L) then map_of L n
      else if n \<in> set ovl then Some (HookedSyftMethod n) else None)"
  by (simp only: hook_pointer_tensor_methods_map_of hook_syft_tensor_methods_map_of simp_thms)

text \<open>
  Claim C10. On a hooked module whose global \<^verbatim>\<open>syft.local_worker\<close> is set, the constructor
  returns a hook whose local worker is that global one, whatever worker the caller passed, and
  leaves the global as it is. So after a constructor call that returned normally, every later
  hook has the local worker of that first hook.
\<close>

theorem later_hooks_share_local_worker:
  "(torch_hooked s \<and> syft_local_worker s = Some w \<longrightarrow>
      fst (TorchHook_init ex dobj self lw c s) = None \<and>
      local_worker (fst (snd (TorchHook_init ex dobj self lw c s))) = w \<and>
      syft_local_worker (snd (snd (TorchHook_init ex dobj self lw c s))) = Some w) \<and>
   (TorchHook_init ex1 dobj1 self1 lw1 c1 s0 = (None, h1, s1) \<longrightarrow>
      fst (TorchHook_init ex dobj self lw c s1) = None \<and>
      local_worker (fst (snd (TorchHook_init ex dobj self lw c s1))) = local_worker h1)"
proof -
  have early: "fst (TorchHook_init ex dobj self lw c s) = None \<and>
      local_worker (fst (snd (TorchHook_init ex dobj self lw c s))) = w \<and>
      syft_local_worker (snd (snd (TorchHook_init ex dobj self lw c s))) = Some w"
    if "torch_hooked s" "syft_local_worker s = Some w" for s w
    using that by (simp add: TorchHook_init_hooked)
  have "fst (TorchHook_init ex dobj self lw c s1) = None \<and>
      local_worker (fst (snd (TorchHook_init ex dobj self lw c s1))) = local_worker h1"
    if h: "TorchHook_init ex1 dobj1 self1 lw1 c1 s0 = (None, h1, s1)"
  proof -
    have "torch_hooked s1"
      using TorchHook_init_sets_marker[of ex1 dobj1 self1 lw1 c1 s0] h by simp
    moreover have "syft_local_worker s1 = Some (local_worker h1)"
      using TorchHook_init_success[OF h] .
    ultimately show ?thesis using early by blast
  qed
  with early show ?thesis by blast
qed

text \<open>
  The same on the scenario: the second hook is given the worker at address 7 and
  ends with the worker at address 0, which the first hook created.
\<close>

theorem later_hooks_share_local_worker_witness:
  "fst (TorchHook_init ex_exclude dir_object_py37 0 None True ex_state) = None \<and>
   local_worker (fst (snd (TorchHook_init ex_exclude dir_object_py37 0 None True ex_state)))
     = Some 0 \<and>
   local_worker (fst (snd (TorchHook_init ex_exclude dir_object_py37 1 (Some 7) True
          (snd (snd (TorchHook_init ex_exclude dir_object_py37 0 None True ex_state))))))
     = Some 0 \<and>
   torch_hooked (snd (snd (TorchHook_init ex_exclude dir_object_py37 0 None True ex_state))) \<and>
   syft_local_worker (snd (snd (TorchHook_init ex_exclude dir_object_py37 0 None True ex_state)))
     = Some (Some 0)"
proof -
  define R1 where "R1 = TorchHook_init ex_exclude dir_object_py37 0 None True ex_state"
  have e: "fst R1 = None" unfolding R1_def by code_simp
  have a: "TorchHook_init ex_exclude dir_object_py37 0 None True ex_state
             = (None, fst (snd R1), snd (snd R1))"
    using e by (simp add: R1_def prod_eq_iff)
  have l: "local_worker (fst (snd R1)) = Some 0" unfolding R1_def by code_simp
  have m: "torch_hooked (snd (snd R1))" unfolding R1_def by code_simp
  have g: "syft_local_worker (snd (snd R1)) = Some (Some 0)" unfolding R1_def by code_simp
  note t = later_hooks_share_local_worker[of "snd (snd R1)" "Some 0" ex_exclude dir_object_py37
      1 "Some 7" True ex_exclude dir_object_py37 0 None True ex_state "fst (snd R1)" "snd (snd R1)"]
  from t a have "local_worker (fst (snd (TorchHook_init ex_exclude dir_object_py37 1 (Some 7) True
          (snd (snd R1))))) = local_worker (fst (snd R1))" by blast
  with e l m g show ?thesis unfolding R1_def by simp
qed


section \<open>The claims about dispatch\<close>



text \<open>
  Claim C2, as the code has it. The dispatcher of a pointer calls \<^verbatim>\<open>send_command\<close> of the
  owner once, with the location of the pointer and the command made of the name, the receiver
  itself, which is the pointer, and the positional arguments as given; it returns the response
  as it is, and nothing else runs: the trace grows by that one event. The same holds for a
  method call on a pointer wherever that dispatcher is installed.
\<close>

theorem pointer_dispatch_forwards:
  "get_hooked_pointer_method X attr (Pointer owner location i) args kwargs (w, tr) =
     (fst (send_command X owner location (attr, Pointer owner location i, args) w),
      snd (send_command X owner location (attr, Pointer owner location i, args) w),
      tr @ [SendCommand owner location (attr, Pointer owner location i, args)]) \<and>
   (getattr (PointerTensor_cls s) attr = Inr (HookedPointerMethod attr) \<longrightarrow>
      call_method (Suc depth) X s (Pointer owner location i) attr args kwargs (w, tr) =
        (fst (send_command X owner location (attr, Pointer owner location i, args) w),
         snd (send_command X owner location (attr, Pointer owner location i, args) w),
         tr @ [SendCommand owner location (attr, Pointer owner location i, args)]))"
  by (simp add: get_hooked_pointer_method_def call_send_command_def Let_def split: prod.splits)

text \<open>The same on the hooked scenario: \<^verbatim>\<open>add\<close> on a pointer to object 7 at W2.\<close>

theorem pointer_dispatch_forwards_witness:
  "getattr (PointerTensor_cls ex_hooked_state) ''add'' = Inr (HookedPointerMethod ''add'') \<and>
   call_method 1 ex_externals ex_hooked_state (Pointer 0 ''W2'' 7) ''add'' [VInt 3]
       [(''alpha'', VInt 2)] ((), [])
     = (Inr (Pointer 0 ''W2'' 99), (),
        [SendCommand 0 ''W2'' (''add'', Pointer 0 ''W2'' 7, [VInt 3])])"
proof -
  have 1: "getattr (PointerTensor_cls ex_hooked_state) ''add'' = Inr (HookedPointerMethod ''add'')"
    by code_simp
  have n1: "(1::nat) = Suc 0" by simp
  from pointer_dispatch_forwards[of ex_externals "''add''" 0 "''W2''" 7 "[VInt 3]"
      "[(''alpha'', VInt 2)]" "()" "[]" ex_hooked_state 0] 1
  have "call_method 1 ex_externals ex_hooked_state (Pointer 0 ''W2'' 7) ''add'' [VInt 3]
       [(''alpha'', VInt 2)] ((), [])
     = (Inr (Pointer 0 ''W2'' 99), (),
        [SendCommand 0 ''W2'' (''add'', Pointer 0 ''W2'' 7, [VInt 3])])"
    unfolding n1 by (simp add: ex_externals_def)
  with 1 show ?thesis by blast
qed

text \<open>
  The receiver in the command is the pointer, not a torch tensor that wraps it. The
  dispatcher is installed on \<^verbatim>\<open>PointerTensor\<close>, so its \<^verbatim>\<open>self\<close> is the pointer; and when
  the operation is called on the torch tensor that wraps the pointer, the command still holds
  the pointer, and the response comes back rewrapped by the dispatcher of the wrapper.
\<close>

theorem pointer_command_receiver_counterexample:
  "get_hooked_pointer_method ex_externals ''add'' (Pointer 0 ''W2'' 7) [VInt 3] [] ((), [])
     = (Inr (Pointer 0 ''W2'' 99), (),
        [SendCommand 0 ''W2'' (''add'', Pointer 0 ''W2'' 7, [VInt 3])]) \<and>
   call_method 2 ex_externals ex_hooked_state (Wrapper (Pointer 0 ''W2'' 7)) ''add'' [VInt 3] []
       ((), [])
     = (Inr (Wrapper (Pointer 0 ''W2'' 99)), (),
        [SendCommand 0 ''W2'' (''add'', Pointer 0 ''W2'' 7, [VInt 3])]) \<and>
   (''add'', Pointer 0 ''W2'' 7, [VInt 3]) \<noteq> (''add'', Wrapper (Pointer 0 ''W2'' 7), [VInt 3])"
  by code_simp

text \<open>
  Claim C3 fails on the code. On the hooked scenario \<^verbatim>\<open>x.add(y, alpha=2)\<close> with bare native
  tensors \<open>x = 2\<close> and \<open>y = 3\<close> runs the saved original with no keyword argument and
  returns 5, while the saved original called with the arguments of the caller returns 8.
\<close>

theorem native_branch_drops_keyword_arguments:
  "getattr (Tensor_cls ex_hooked_state) ''add'' = Inr (HookedMethod ''add'') \<and>
   getattr (Tensor_cls ex_hooked_state) ''native_add''
     = Inr (MethodDescriptor 1 (Some ''_TensorBase.add'')) \<and>
   call_method 2 ex_externals ex_hooked_state (Native 2) ''add'' [Native 3]
       [(''alpha'', VInt 2)] ((), [])
     = (Inr (Native 5), (), [NativeCall 1 (Native 2) [Native 3] []]) \<and>
   call_method 1 ex_externals ex_hooked_state (Native 2) ''native_add'' [Native 3]
       [(''alpha'', VInt 2)] ((), [])
     = (Inr (Native 8), (), [NativeCall 1 (Native 2) [Native 3] [(''alpha'', VInt 2)]])"
  by code_simp

text \<open>
  Claim C7. A hooked module function builds the command made of the qualified name
  \<^verbatim>\<open>module.name\<close> of the native function, no receiver and the positional arguments, hands
  it to \<^verbatim>\<open>TorchTensor.handle_func_command\<close> once and returns what that returns; the keyword
  arguments are not used. The hooking of the module leaves alone every function of the module
  whose name is in the exclusion list, or contains \<^verbatim>\<open>native_\<close>, or already has a saved
  original.
\<close>

theorem free_function_dispatch:
  "get_hooked_func X (Function i m n q) args kwargs (w, tr) =
     (fst (handle_func_command X (m @ ''.'' @ n, VNone, args) w),
      snd (handle_func_command X (m @ ''.'' @ n, VNone, args) w),
      tr @ [HandleFuncCommand (m @ ''.'' @ n, VNone, args)]) \<and>
   get_hooked_func X (BuiltinFunction i m n q) args kwargs (w, tr) =
     (fst (handle_func_command X (m @ ''.'' @ n, VNone, args) w),
      snd (handle_func_command X (m @ ''.'' @ n, VNone, args) w),
      tr @ [HandleFuncCommand (m @ ''.'' @ n, VNone, args)]) \<and>
   (getattr (nn_functional s) func = Inr (HookedFunc f) \<and> func_names f = Some (m, n) \<longrightarrow>
      call_function X s func args kwargs (w, tr) =
        (fst (handle_func_command X (m @ ''.'' @ n, VNone, args) w),
         snd (handle_func_command X (m @ ''.'' @ n, VNone, args) w),
         tr @ [HandleFuncCommand (m @ ''.'' @ n, VNone, args)])) \<and>
   (func \<in> set (dir M) \<and>
    (func \<in> set exclude \<or> str_contains ''native_'' func \<or> native_name func \<in> set (dir M))
      \<longrightarrow> map_of (snd (hook_torch_module exclude M)) func = map_of M func)"
proof -
  have 1: "get_hooked_func X (Function i m n q) args kwargs (w, tr) =
     (fst (handle_func_command X (m @ ''.'' @ n, VNone, args) w),
      snd (handle_func_command X (m @ ''.'' @ n, VNone, args) w),
      tr @ [HandleFuncCommand (m @ ''.'' @ n, VNone, args)])"
    by (simp add: get_hooked_func_def call_handle_func_command_def Let_def split: prod.splits)
  have 2: "get_hooked_func X (BuiltinFunction i m n q) args kwargs (w, tr) =
     (fst (handle_func_command X (m @ ''.'' @ n, VNone, args) w),
      snd (handle_func_command X (m @ ''.'' @ n, VNone, args) w),
      tr @ [HandleFuncCommand (m @ ''.'' @ n, VNone, args)])"
    by (simp add: get_hooked_func_def call_handle_func_command_def Let_def split: prod.splits)
  have 3: "getattr (nn_functional s) func = Inr (HookedFunc f) \<and> func_names f = Some (m, n) \<longrightarrow>
      call_function X s func args kwargs (w, tr) =
        (fst (handle_func_command X (m @ ''.'' @ n, VNone, args) w),
         snd (handle_func_command X (m @ ''.'' @ n, VNone, args) w),
         tr @ [HandleFuncCommand (m @ ''.'' @ n, VNone, args)])"
    by (simp add: call_function_def get_hooked_func_def call_handle_func_command_def Let_def
        split: prod.splits)
  have 4: "func \<in> set (dir M) \<and>
    (func \<in> set exclude \<or> str_contains ''native_'' func \<or> native_name func \<in> set (dir M))
      \<longrightarrow> map_of (snd (hook_torch_module exclude M)) func = map_of M func"
    using hook_torch_module_loop_frame[of func M exclude "dir M"]
    by (auto simp: hook_torch_module_def)
  from 1 2 3 4 show ?thesis by blast
qed

text \<open>
  The same on the scenario: \<^verbatim>\<open>relu\<close> is hooked and dispatches,
  \<^verbatim>\<open>is_floating_point\<close> is excluded, \<^verbatim>\<open>native_dropout\<close> has a native name.
\<close>

theorem free_function_dispatch_witness:
  "getattr (nn_functional ex_hooked_state) ''relu''
     = Inr (HookedFunc (Function 40 ''torch.nn.functional'' ''relu'' ''relu'')) \<and>
   call_function ex_externals ex_hooked_state ''relu'' [Native 3] [(''inplace'', VInt 1)] ((), [])
     = (Inr (Native 0), (), [HandleFuncCommand (''torch.nn.functional.relu'', VNone, [Native 3])]) \<and>
   ''is_floating_point'' \<in> set (dir ex_functional) \<and> ''is_floating_point'' \<in> set ex_exclude \<and>
   map_of (snd (hook_torch_module ex_exclude ex_functional)) ''is_floating_point''
     = map_of ex_functional ''is_floating_point'' \<and>
   ''native_dropout'' \<in> set (dir ex_functional) \<and> str_contains ''native_'' ''native_dropout'' \<and>
   map_of (snd (hook_torch_module ex_exclude ex_functional)) ''native_dropout''
     = map_of ex_functional ''native_dropout''"
proof -
  have 1: "getattr (nn_functional ex_hooked_state) ''relu''
     = Inr (HookedFunc (Function 40 ''torch.nn.functional'' ''relu'' ''relu''))"
    by code_simp
  have 2: "func_names (Function 40 ''torch.nn.functional'' ''relu'' ''relu'')
     = Some (''torch.nn.functional'', ''relu'')" by simp
  have 3: "''is_floating_point'' \<in> set (dir ex_functional)" by code_simp
  have 4: "''is_floating_point'' \<in> set ex_exclude" by code_simp
  have 5: "''native_dropout'' \<in> set (dir ex_functional)" by code_simp
  have 6: "str_contains ''native_'' ''native_dropout''" by code_simp
  from free_function_dispatch[where X = ex_externals and s = ex_hooked_state
      and func = "''relu''" and f = "Function 40 ''torch.nn.functional'' ''relu'' ''relu''"
      and m = "''torch.nn.functional''" and n = "''relu''" and args = "[Native 3]"
      and kwargs = "[(''inplace'', VInt 1)]" and w = "()" and tr = "[]"] 1 2
  have 7: "call_function ex_externals ex_hooked_state ''relu'' [Native 3] [(''inplace'', VInt 1)]
      ((), [])
     = (Inr (Native 0), (), [HandleFuncCommand (''torch.nn.functional.relu'', VNone, [Native 3])])"
    by (simp add: ex_externals_def)
  from free_function_dispatch[where X = ex_externals and s = ex_hooked_state
      and func = "''is_floating_point''" and f = "Function 40 ''torch.nn.functional'' ''relu'' ''relu''"
      and m = "''torch.nn.functional''" and n = "''relu''" and args = "[Native 3]"
      and kwargs = "[(''inplace'', VInt 1)]" and w = "()" and tr = "[]" and i = 40 and q = "''relu''"
      and M = ex_functional and exclude = ex_exclude] 3 4
  have 8: "map_of (snd (hook_torch_module ex_exclude ex_functional)) ''is_floating_point''
     = map_of ex_functional ''is_floating_point''"
    by simp
  from free_function_dispatch[where X = ex_externals and s = ex_hooked_state
      and func = "''native_dropout''" and f = "Function 40 ''torch.nn.functional'' ''relu'' ''relu''"
      and m = "''torch.nn.functional''" and n = "''relu''" and args = "[Native 3]"
      and kwargs = "[(''inplace'', VInt 1)]" and w = "()" and tr = "[]" and i = 40 and q = "''relu''"
      and M = ex_functional and exclude = ex_exclude] 5 6
  have 9: "map_of (snd (hook_torch_module ex_exclude ex_functional)) ''native_dropout''
     = map_of ex_functional ''native_dropout''"
    by simp
  from 1 3 4 5 6 7 8 9 show ?thesis by blast
qed


section \<open>The claim about the identifier\<close>




end
